theory Spec2Isabelle
  imports Complex_Main
begin

section \<open>Python values\<close>

text \<open>
  The values that trait attributes and inbound messages hold. A dictionary is a map from
  its (string) keys; an object is known by the names of the classes it is an instance of
  and by its identity. Floats appear in \<^verbatim>\<open>map.py\<close> as the constants 800.0, 600.0 and 5.0
  only; they are kept as the numbers they denote.
\<close>

datatype pyval =
    PyNone
  | PyBool bool
  | PyInt int
  | PyFloat real
  | PyStr string
  | PyList "pyval list"
  | PyTuple "pyval list"
  | PyDict "string \<Rightarrow> pyval option"
  | PyObj "string list" nat

type_synonym content = "string \<Rightarrow> pyval option"

text \<open>\<^verbatim>\<open>d.get(key, default)\<close> of a Python dictionary.\<close>

definition dict_get :: "content \<Rightarrow> string \<Rightarrow> pyval \<Rightarrow> pyval" where
  "dict_get d k dflt = (case d k of None \<Rightarrow> dflt | Some v \<Rightarrow> v)"

section \<open>The trait declarations of class Map\<close>

text \<open>
  The trait types that \<^verbatim>\<open>map.py\<close> imports and uses in the class body of \<^verbatim>\<open>Map\<close>.
  \<open>TInstance\<close> carries the name of the class, \<open>TTuple\<close> the trait types of the
  components.
\<close>

datatype trait_type =
    TDict
  | TFloat
  | TBool
  | TColor
  | TInstance string
  | TList
  | TUnicode
  | TTuple "trait_type list"

text \<open>
  One declaration \<^verbatim>\<open>name = Trait(default, allow_none=..., sync=...)\<close>: the trait type,
  the default value when the declaration passes one, the \<^verbatim>\<open>allow_none\<close> keyword when the
  declaration passes it, and the \<^verbatim>\<open>sync\<close> metadata flag.
\<close>

record trait_decl =
  trait :: trait_type
  default_arg :: "pyval option"
  allow_none_arg :: "bool option"
  sync :: bool

text \<open>
  The trait attributes of the class, in the order of the class body (lines 95 to 123, and
  \<^verbatim>\<open>_view_name\<close>, \<^verbatim>\<open>_view_module\<close> of lines 144 and 145, written without the leading
  underscore).
\<close>

datatype trait_name =
    fig_margin
  | min_width
  | min_height
  | enable_hover
  | hovered_styles
  | stroke_color
  | default_color
  | color
  | color_scale
  | enable_select
  | selected
  | selected_styles
  | axis
  | tooltip_color
  | display_tooltip
  | text_data
  | text_color
  | tooltip_format
  | tooltip_widget
  | map_data
  | view_name
  | view_module

definition decl :: "trait_type \<Rightarrow> pyval option \<Rightarrow> bool option \<Rightarrow> bool \<Rightarrow> trait_decl" where
  "decl t d n s = \<lparr>trait = t, default_arg = d, allow_none_arg = n, sync = s\<rparr>"

fun Map_decl :: "trait_name \<Rightarrow> trait_decl" where
  "Map_decl fig_margin =
     decl TDict
       (Some (PyDict [''top'' \<mapsto> PyInt 0, ''bottom'' \<mapsto> PyInt 20,
                      ''left'' \<mapsto> PyInt 0, ''right'' \<mapsto> PyInt 0]))
       None True"
| "Map_decl min_width = decl TFloat (Some (PyFloat 800)) None True"
| "Map_decl min_height = decl TFloat (Some (PyFloat 600)) None True"
| "Map_decl enable_hover = decl TBool (Some (PyBool True)) None True"
| "Map_decl hovered_styles =
     decl TDict
       (Some (PyDict [''hovered_fill'' \<mapsto> PyStr ''Orange'', ''hovered_stroke'' \<mapsto> PyNone,
                      ''hovered_stroke_width'' \<mapsto> PyFloat 5]))
       (Some True) True"
| "Map_decl stroke_color = decl TColor None (Some True) True"
| "Map_decl default_color = decl TColor None (Some True) True"
| "Map_decl color = decl TDict None None True"
| "Map_decl color_scale = decl (TInstance ''ColorScale'') None None True"
| "Map_decl enable_select = decl TBool (Some (PyBool True)) None True"
| "Map_decl selected = decl TList (Some (PyList [])) None True"
| "Map_decl selected_styles =
     decl TDict
       (Some (PyDict [''selected_fill'' \<mapsto> PyStr ''Red'', ''selected_stroke'' \<mapsto> PyNone,
                      ''selected_stroke_width'' \<mapsto> PyFloat 5]))
       (Some True) True"
| "Map_decl axis = decl (TInstance ''Axis'') None None True"
| "Map_decl tooltip_color = decl TColor (Some (PyStr ''White'')) None True"
| "Map_decl display_tooltip = decl TBool (Some (PyBool True)) None True"
| "Map_decl text_data = decl TDict None None True"
| "Map_decl text_color = decl TColor (Some (PyStr ''Black'')) None True"
| "Map_decl tooltip_format = decl TUnicode (Some (PyStr ''.2f'')) None True"
| "Map_decl tooltip_widget = decl (TInstance ''DOMWidget'') None None True"
| "Map_decl map_data =
     decl (TTuple [TUnicode, TUnicode])
       (Some (PyTuple [PyStr ''worldmap'', PyStr ''nbextensions/bqplot/WorldMapData'']))
       None True"
| "Map_decl view_name = decl TUnicode (Some (PyStr ''Map'')) None True"
| "Map_decl view_module = decl TUnicode (Some (PyStr ''nbextensions/bqplot/Map'')) None True"

text \<open>The twenty configuration fields, \<^verbatim>\<open>fig_margin\<close> through \<^verbatim>\<open>map_data\<close>.\<close>

definition config_fields :: "trait_name list" where
  "config_fields =
     [fig_margin, min_width, min_height, enable_hover, hovered_styles, stroke_color,
      default_color, color, color_scale, enable_select, selected, selected_styles, axis,
      tooltip_color, display_tooltip, text_data, text_color, tooltip_format, tooltip_widget,
      map_data]"

section \<open>The attribute store\<close>

text \<open>
  Modelled from the spec: the trait types are classes of IPython's traitlets, which
  \<^verbatim>\<open>map.py\<close> imports; what a trait type does when a declaration passes no default value
  is not in the repository. The spec's field table gives the empty mapping for a
  \<^verbatim>\<open>Dict\<close>, and null for a \<^verbatim>\<open>Color\<close> and for an \<^verbatim>\<open>Instance\<close>. Every declaration of
  another trait type in \<^verbatim>\<open>map.py\<close> passes its own default, and the spec gives none.
\<close>

fun class_default :: "trait_type \<Rightarrow> pyval option" where
  "class_default TDict = Some (PyDict Map.empty)"
| "class_default TColor = Some PyNone"
| "class_default (TInstance k) = Some PyNone"
| "class_default t = None"

definition default_value :: "trait_name \<Rightarrow> pyval option" where
  "default_value f =
     (case default_arg (Map_decl f) of
        Some v \<Rightarrow> Some v
      | None \<Rightarrow> class_default (trait (Map_decl f)))"

text \<open>
  Modelled from the spec: whether a trait type accepts null when the declaration does not
  pass \<^verbatim>\<open>allow_none\<close> (traitlets, not in the repository). The spec calls an
  \<^verbatim>\<open>Instance\<close> field a nullable reference, and no other kind nullable by itself.
\<close>

fun class_allow_none :: "trait_type \<Rightarrow> bool" where
  "class_allow_none (TInstance k) = True"
| "class_allow_none t = False"

definition allow_none :: "trait_name \<Rightarrow> bool" where
  "allow_none f =
     (case allow_none_arg (Map_decl f) of
        Some b \<Rightarrow> b
      | None \<Rightarrow> class_allow_none (trait (Map_decl f)))"

text \<open>
  Modelled from the spec: the agreement of a value's runtime type with a declared kind
  (the validation of traitlets, not in the repository). A number is an integer or a
  float, a color and a string are strings, a reference is an instance of the declared
  class, a pair of strings is a tuple of two strings. Nothing but the type is looked at.
\<close>

fun kind_ok :: "trait_type \<Rightarrow> pyval \<Rightarrow> bool"
  and kinds_ok :: "trait_type list \<Rightarrow> pyval list \<Rightarrow> bool" where
  "kind_ok TDict v = (case v of PyDict d \<Rightarrow> True | _ \<Rightarrow> False)"
| "kind_ok TFloat v = (case v of PyFloat x \<Rightarrow> True | PyInt i \<Rightarrow> True | _ \<Rightarrow> False)"
| "kind_ok TBool v = (case v of PyBool b \<Rightarrow> True | _ \<Rightarrow> False)"
| "kind_ok TColor v = (case v of PyStr s \<Rightarrow> True | _ \<Rightarrow> False)"
| "kind_ok (TInstance k) v = (case v of PyObj mro i \<Rightarrow> k \<in> set mro | _ \<Rightarrow> False)"
| "kind_ok TList v = (case v of PyList xs \<Rightarrow> True | _ \<Rightarrow> False)"
| "kind_ok TUnicode v = (case v of PyStr s \<Rightarrow> True | _ \<Rightarrow> False)"
| "kind_ok (TTuple ts) v = (case v of PyTuple vs \<Rightarrow> kinds_ok ts vs | _ \<Rightarrow> False)"
| "kinds_ok [] [] = True"
| "kinds_ok (t # ts) (v # vs) = (kind_ok t v \<and> kinds_ok ts vs)"
| "kinds_ok ts vs = False"

datatype error = InvalidFieldKind

type_synonym trait_values = "trait_name \<Rightarrow> pyval option"

text \<open>
  Modelled from the spec: \<^verbatim>\<open>set(field, value)\<close> of the attribute store (the assignment to
  a trait attribute, which traitlets validates; not in the repository). Null is stored on
  a nullable field; otherwise the value is stored when its type agrees with the declared
  kind, and the assignment fails with \<open>InvalidFieldKind\<close> when it does not.
\<close>

definition set_trait :: "trait_values \<Rightarrow> trait_name \<Rightarrow> pyval \<Rightarrow> error + trait_values" where
  "set_trait tv f v =
     (if v = PyNone \<and> allow_none f then Inr (tv(f \<mapsto> v))
      else if kind_ok (trait (Map_decl f)) v then Inr (tv(f \<mapsto> v))
      else Inl InvalidFieldKind)"

text \<open>
  Modelled from the spec: the constructor of the base class (IPython's \<^verbatim>\<open>DOMWidget\<close>, not
  in the repository), to which \<^verbatim>\<open>Map.__init__\<close> passes its keyword arguments. The widget's
  state is created with all defaults; each keyword argument is then an assignment to the
  trait of that name, and a failing assignment, which nothing catches, ends the
  construction.
\<close>

fun set_kwargs :: "trait_values \<Rightarrow> (trait_name \<times> pyval) list \<Rightarrow> error + trait_values" where
  "set_kwargs tv [] = Inr tv"
| "set_kwargs tv ((f, v) # kws) =
     (case set_trait tv f v of
        Inl e \<Rightarrow> Inl e
      | Inr tv' \<Rightarrow> set_kwargs tv' kws)"

section \<open>The widget\<close>

text \<open>
  Modelled from the spec: \<^verbatim>\<open>CallbackDispatcher\<close> is a class of IPython's widgets, which
  \<^verbatim>\<open>map.py\<close> imports; its methods are not in the repository. A dispatcher is the ordered
  sequence of its callback handles, and a handle is opaque: the model knows its equality
  only. \<^verbatim>\<open>register_callback(callback, remove)\<close> appends the handle when \<^verbatim>\<open>remove\<close> is
  false, with no uniqueness check, and removes the first occurrence equal to it when
  \<^verbatim>\<open>remove\<close> is true, doing nothing when there is none.
\<close>

definition register_callback :: "'cb list \<Rightarrow> 'cb \<Rightarrow> bool \<Rightarrow> 'cb list" where
  "register_callback callbacks callback remove =
     (if remove then remove1 callback callbacks else callbacks @ [callback])"

text \<open>
  Modelled from the spec: calling a dispatcher with \<^verbatim>\<open>(source, payload)\<close> invokes every
  registered callback with these arguments, in registration order. What a callback does
  is host code; the model records each invocation: the handle and the two arguments.
\<close>

fun dispatch :: "'cb list \<Rightarrow> 's \<Rightarrow> 'p \<Rightarrow> ('cb \<times> 's \<times> 'p) list" where
  "dispatch [] source payload = []"
| "dispatch (callback # callbacks) source payload =
     (callback, source, payload) # dispatch callbacks source payload"

record 'cb Map_widget =
  trait_values :: trait_values
  ctrl_click_handlers :: "'cb list"
  hover_handlers :: "'cb list"

type_synonym 'cb invocation = "'cb \<times> 'cb Map_widget \<times> content"

text \<open>
  \<^verbatim>\<open>Map.__init__(self, **kwargs)\<close>: the base class constructor runs first, on the
  keyword arguments (\<open>set_kwargs\<close> from the defaults); then the two dispatchers are
  created empty.
  (\<^verbatim>\<open>self.on_msg(self._handle_button_msg)\<close> makes \<open>handle_button_msg\<close> the handler of
  the widget's inbound messages.)
\<close>

definition Map_init :: "(trait_name \<times> pyval) list \<Rightarrow> error + 'cb Map_widget" where
  "Map_init kwargs =
     (case set_kwargs default_value kwargs of
        Inl e \<Rightarrow> Inl e
      | Inr tv \<Rightarrow>
          Inr \<lparr>trait_values = tv, ctrl_click_handlers = [], hover_handlers = []\<rparr>)"

definition attr_get :: "'cb Map_widget \<Rightarrow> trait_name \<Rightarrow> pyval option" where
  "attr_get self f = trait_values self f"

definition attr_set :: "'cb Map_widget \<Rightarrow> trait_name \<Rightarrow> pyval \<Rightarrow> error + 'cb Map_widget" where
  "attr_set self f v =
     (case set_trait (trait_values self) f v of
        Inl e \<Rightarrow> Inl e
      | Inr tv \<Rightarrow> Inr (self\<lparr>trait_values := tv\<rparr>))"

definition on_ctrl_click :: "'cb Map_widget \<Rightarrow> 'cb \<Rightarrow> bool \<Rightarrow> 'cb Map_widget" where
  "on_ctrl_click self callback remove =
     self\<lparr>ctrl_click_handlers := register_callback (ctrl_click_handlers self) callback remove\<rparr>"

definition on_hover :: "'cb Map_widget \<Rightarrow> 'cb \<Rightarrow> bool \<Rightarrow> 'cb Map_widget" where
  "on_hover self callback remove =
     self\<lparr>hover_handlers := register_callback (hover_handlers self) callback remove\<rparr>"

text \<open>
  \<^verbatim>\<open>_handle_button_msg(self, _, content)\<close>: two \<^verbatim>\<open>if\<close> statements, one after the other,
  each calling its dispatcher with \<^verbatim>\<open>(self, content)\<close>. The handler assigns nothing; it
  returns the widget as it was, and the invocations it made, in order.
\<close>

definition handle_button_msg ::
  "'cb Map_widget \<Rightarrow> 'cb Map_widget \<Rightarrow> content \<Rightarrow> 'cb Map_widget \<times> 'cb invocation list" where
  "handle_button_msg self u content =
     (let clicks =
            (if dict_get content ''event'' (PyStr '''') = PyStr ''click''
             then dispatch (ctrl_click_handlers self) self content else []);
          hovers =
            (if dict_get content ''event'' (PyStr '''') = PyStr ''hover''
             then dispatch (hover_handlers self) self content else [])
      in (self, clicks @ hovers))"

section \<open>Sequences of registrations\<close>

text \<open>
  The ordered sequence of the spec's testable property, on its own: a call
  \<open>(callback, remove)\<close> appends the callback when \<open>remove\<close> is false and deletes the first
  element equal to it when \<open>remove\<close> is true.
\<close>

fun remove_first :: "'cb \<Rightarrow> 'cb list \<Rightarrow> 'cb list" where
  "remove_first c [] = []"
| "remove_first c (x # xs) = (if x = c then xs else x # remove_first c xs)"

fun simulate :: "'cb list \<Rightarrow> ('cb \<times> bool) list \<Rightarrow> 'cb list" where
  "simulate xs [] = xs"
| "simulate xs ((c, remove) # calls) =
     simulate (if remove then remove_first c xs else xs @ [c]) calls"

text \<open>The same calls made on the widget, one after the other.\<close>

fun on_ctrl_click_calls :: "'cb Map_widget \<Rightarrow> ('cb \<times> bool) list \<Rightarrow> 'cb Map_widget" where
  "on_ctrl_click_calls self [] = self"
| "on_ctrl_click_calls self ((c, remove) # calls) =
     on_ctrl_click_calls (on_ctrl_click self c remove) calls"

fun on_hover_calls :: "'cb Map_widget \<Rightarrow> ('cb \<times> bool) list \<Rightarrow> 'cb Map_widget" where
  "on_hover_calls self [] = self"
| "on_hover_calls self ((c, remove) # calls) =
     on_hover_calls (on_hover self c remove) calls"

section \<open>Example widgets and messages\<close>

text \<open>The widget that \<^verbatim>\<open>Map()\<close> constructs, with natural numbers as callback handles.\<close>

definition new_widget :: "nat Map_widget" where
  "new_widget =
     \<lparr>trait_values = default_value, ctrl_click_handlers = [], hover_handlers = []\<rparr>"

text \<open>Callback 1 registered for ctrl-click and callback 2 for hover.\<close>

definition two_handlers :: "nat Map_widget" where
  "two_handlers = on_hover (on_ctrl_click new_widget 1 False) 2 False"

text \<open>Callback 7 registered for hover, and nothing else.\<close>

definition hover_registered :: "nat Map_widget" where
  "hover_registered = on_hover new_widget 7 False"

definition click_FRA :: content where
  "click_FRA = [''event'' \<mapsto> PyStr ''click'', ''id'' \<mapsto> PyStr ''FRA'']"

definition hover_DEU :: content where
  "hover_DEU = [''event'' \<mapsto> PyStr ''hover'', ''id'' \<mapsto> PyStr ''DEU'']"

definition hover_ESP :: content where
  "hover_ESP = [''event'' \<mapsto> PyStr ''hover'', ''id'' \<mapsto> PyStr ''ESP'']"

definition zoom :: content where
  "zoom = [''event'' \<mapsto> PyStr ''zoom'']"

definition no_event :: content where
  "no_event = [''id'' \<mapsto> PyStr ''FRA'']"

section \<open>Auxiliary facts\<close>

lemma dispatch_map: "dispatch callbacks source payload = map (\<lambda>c. (c, source, payload)) callbacks"
  by (induction callbacks) simp_all

lemma remove_first_remove1: "remove_first c xs = remove1 c xs"
  by (induction xs) auto

lemma Map_init_Nil:
  "Map_init [] =
     Inr \<lparr>trait_values = default_value, ctrl_click_handlers = [], hover_handlers = []\<rparr>"
  by (simp add: Map_init_def)

lemma two_handlers_lists:
  "ctrl_click_handlers two_handlers = [1] \<and> hover_handlers two_handlers = [2]"
  by (simp add: two_handlers_def on_hover_def on_ctrl_click_def register_callback_def
        new_widget_def)

lemma ctrl_click_calls_simulate:
  "ctrl_click_handlers (on_ctrl_click_calls self calls) =
     simulate (ctrl_click_handlers self) calls"
  by (induction self calls rule: on_ctrl_click_calls.induct)
     (simp_all add: on_ctrl_click_def register_callback_def remove_first_remove1)

lemma hover_calls_simulate:
  "hover_handlers (on_hover_calls self calls) = simulate (hover_handlers self) calls"
  by (induction self calls rule: on_hover_calls.induct)
     (simp_all add: on_hover_def register_callback_def remove_first_remove1)

lemma simulate_registrations: "simulate xs (map (\<lambda>c. (c, False)) cs) = xs @ cs"
  by (induction cs arbitrary: xs) simp_all

lemma foldl_register: "foldl (\<lambda>cbs c. register_callback cbs c False) xs cs = xs @ cs"
  by (induction cs arbitrary: xs) (simp_all add: register_callback_def)

lemma Map_init_handlers:
  "Map_init kwargs = Inr w0 \<Longrightarrow> ctrl_click_handlers w0 = [] \<and> hover_handlers w0 = []"
  by (auto simp add: Map_init_def split: sum.splits)

lemma allow_none_fields:
  "allow_none f =
     (f \<in> {hovered_styles, stroke_color, default_color, color_scale, selected_styles, axis,
            tooltip_widget})"
  by (cases f) (simp_all add: allow_none_def decl_def)

lemma kind_ok_PyNone: "\<not> kind_ok t PyNone"
  by (cases t) simp_all

section \<open>The trait declarations\<close>

text \<open>
  C8. Every trait declared in the class body of \<^verbatim>\<open>Map\<close> passes \<^verbatim>\<open>sync=True\<close>: each of
  the twenty configuration fields \<^verbatim>\<open>fig_margin\<close> through \<^verbatim>\<open>map_data\<close> (and the two view
  traits besides) carries the synchronized flag. The flag belongs to the declaration, not
  to the widget's state, so no operation on a widget changes it.
\<close>

theorem all_fields_synchronized:
  "sync (Map_decl f) \<and> length config_fields = 20 \<and> distinct config_fields
     \<and> map (\<lambda>f. sync (Map_decl f)) config_fields = replicate 20 True"
  by (cases f) (simp_all add: decl_def config_fields_def eval_nat_numeral)

text \<open>
  C3. The widget constructed with no keyword argument holds, before any assignment, the
  declared default of every configuration field.
\<close>

theorem fresh_widget_defaults:
  "\<exists>w :: 'cb Map_widget. Map_init [] = Inr w
     \<and> attr_get w fig_margin =
         Some (PyDict [''top'' \<mapsto> PyInt 0, ''bottom'' \<mapsto> PyInt 20,
                       ''left'' \<mapsto> PyInt 0, ''right'' \<mapsto> PyInt 0])
     \<and> attr_get w min_width = Some (PyFloat 800)
     \<and> attr_get w min_height = Some (PyFloat 600)
     \<and> attr_get w enable_hover = Some (PyBool True)
     \<and> attr_get w hovered_styles =
         Some (PyDict [''hovered_fill'' \<mapsto> PyStr ''Orange'', ''hovered_stroke'' \<mapsto> PyNone,
                       ''hovered_stroke_width'' \<mapsto> PyFloat 5])
     \<and> attr_get w stroke_color = Some PyNone
     \<and> attr_get w default_color = Some PyNone
     \<and> attr_get w color = Some (PyDict Map.empty)
     \<and> attr_get w color_scale = Some PyNone
     \<and> attr_get w enable_select = Some (PyBool True)
     \<and> attr_get w selected = Some (PyList [])
     \<and> attr_get w selected_styles =
         Some (PyDict [''selected_fill'' \<mapsto> PyStr ''Red'', ''selected_stroke'' \<mapsto> PyNone,
                       ''selected_stroke_width'' \<mapsto> PyFloat 5])
     \<and> attr_get w axis = Some PyNone
     \<and> attr_get w tooltip_color = Some (PyStr ''White'')
     \<and> attr_get w display_tooltip = Some (PyBool True)
     \<and> attr_get w text_data = Some (PyDict Map.empty)
     \<and> attr_get w text_color = Some (PyStr ''Black'')
     \<and> attr_get w tooltip_format = Some (PyStr ''.2f'')
     \<and> attr_get w tooltip_widget = Some PyNone
     \<and> attr_get w map_data =
         Some (PyTuple [PyStr ''worldmap'', PyStr ''nbextensions/bqplot/WorldMapData''])"
  by (simp add: Map_init_def attr_get_def default_value_def decl_def)

section \<open>Routing of inbound messages\<close>

text \<open>
  C1, as the claim states it, fails: the handler passes \<^verbatim>\<open>content\<close> itself to the
  dispatcher, so a callback receives the whole message, the \<^verbatim>\<open>event\<close> key included. With
  callback 1 registered for ctrl-click, the message \<^verbatim>\<open>{"event":"click","id":"FRA"}\<close>
  invokes it with that message, which is not \<^verbatim>\<open>{"id":"FRA"}\<close>.
\<close>

theorem click_payload_keeps_event_key:
  "handle_button_msg two_handlers two_handlers click_FRA =
     (two_handlers, [(1, two_handlers, click_FRA)])
   \<and> click_FRA \<noteq> [''id'' \<mapsto> PyStr ''FRA'']"
  by (auto simp add: handle_button_msg_def dict_get_def click_FRA_def two_handlers_def
        on_hover_def on_ctrl_click_def register_callback_def new_widget_def
        dest: fun_cong [where x = "''event''"])

text \<open>
  C1, amended. For every inbound message whose \<^verbatim>\<open>event\<close> field equals \<^verbatim>\<open>"click"\<close>, the
  handler invokes every callback of the ctrl-click dispatcher, in registration order, and
  makes no other invocation (none for the hover dispatcher); each invoked callback
  receives the widget and the message content unchanged, the \<^verbatim>\<open>event\<close> key included.
\<close>

theorem click_routing:
  assumes "content ''event'' = Some (PyStr ''click'')"
  shows "handle_button_msg self u content =
           (self, map (\<lambda>callback. (callback, self, content)) (ctrl_click_handlers self))"
  using assms by (simp add: handle_button_msg_def dict_get_def dispatch_map)

theorem click_routing_witness:
  "click_FRA ''event'' = Some (PyStr ''click'')
     \<and> handle_button_msg two_handlers two_handlers click_FRA =
         (two_handlers, [(1, two_handlers, click_FRA)])"
proof -
  have h: "click_FRA ''event'' = Some (PyStr ''click'')"
    by (simp add: click_FRA_def)
  show ?thesis
    using h click_routing [of click_FRA two_handlers two_handlers] two_handlers_lists by simp
qed

text \<open>
  C2, as the claim states it, fails in its scenario for the same reason: on the widget
  that \<^verbatim>\<open>Map()\<close> constructs, with callback 7 registered by \<^verbatim>\<open>on_hover\<close>, the message
  \<^verbatim>\<open>{"event":"hover","id":"ESP"}\<close> invokes the callback once, with the widget and the whole
  message, which is not \<^verbatim>\<open>{"id":"ESP"}\<close>.
\<close>

theorem hover_payload_keeps_event_key:
  "Map_init [] = Inr new_widget
     \<and> handle_button_msg (on_hover new_widget 7 False) (on_hover new_widget 7 False) hover_ESP =
         (on_hover new_widget 7 False, [(7, on_hover new_widget 7 False, hover_ESP)])
     \<and> hover_ESP \<noteq> [''id'' \<mapsto> PyStr ''ESP'']"
  by (auto simp add: Map_init_def new_widget_def handle_button_msg_def dict_get_def
        hover_ESP_def on_hover_def register_callback_def
        dest: fun_cong [where x = "''event''"])

text \<open>
  C2, amended. For every inbound message whose \<^verbatim>\<open>event\<close> field equals \<^verbatim>\<open>"hover"\<close>, the
  handler invokes the callbacks of the hover dispatcher and makes no other invocation
  (none for the ctrl-click dispatcher). In particular, after constructing a widget and
  registering a single callback A by \<^verbatim>\<open>on_hover\<close>, the message
  \<^verbatim>\<open>{"event":"hover","id":"ESP"}\<close> invokes A exactly once, with the widget and the whole
  message \<^verbatim>\<open>{"event":"hover","id":"ESP"}\<close>.
\<close>

theorem hover_routing:
  "(content ''event'' = Some (PyStr ''hover'') \<longrightarrow>
      handle_button_msg self u content =
        (self, map (\<lambda>callback. (callback, self, content)) (hover_handlers self)))
   \<and> (\<exists>w0. Map_init [] = Inr w0
         \<and> handle_button_msg (on_hover w0 A False) v hover_ESP =
             (on_hover w0 A False, [(A, on_hover w0 A False, hover_ESP)]))"
  by (simp add: handle_button_msg_def dict_get_def dispatch_map Map_init_def hover_ESP_def
        on_hover_def register_callback_def)

theorem hover_routing_witness:
  "hover_DEU ''event'' = Some (PyStr ''hover'')
     \<and> handle_button_msg two_handlers two_handlers hover_DEU =
         (two_handlers, [(2, two_handlers, hover_DEU)])
     \<and> (\<exists>w0. Map_init [] = Inr w0
         \<and> handle_button_msg (on_hover w0 (7::nat) False) new_widget hover_ESP =
             (on_hover w0 7 False, [(7, on_hover w0 7 False, hover_ESP)]))"
proof -
  have h: "hover_DEU ''event'' = Some (PyStr ''hover'')"
    by (simp add: hover_DEU_def)
  show ?thesis
    using h hover_routing [of hover_DEU two_handlers two_handlers 7 new_widget]
      two_handlers_lists
    by simp
qed

text \<open>
  C4. For every inbound message whose \<^verbatim>\<open>event\<close> field is neither \<^verbatim>\<open>"click"\<close> nor
  \<^verbatim>\<open>"hover"\<close>, the handler returns with no callback of either dispatcher invoked and the
  widget as it was. (The handler has no raising statement: it returns on every message.)
\<close>

theorem unknown_event_ignored:
  assumes "content ''event'' = Some v" and "v \<noteq> PyStr ''click''" and "v \<noteq> PyStr ''hover''"
  shows "handle_button_msg self u content = (self, [])"
  using assms by (simp add: handle_button_msg_def dict_get_def)

theorem unknown_event_ignored_witness:
  "zoom ''event'' = Some (PyStr ''zoom'') \<and> PyStr ''zoom'' \<noteq> PyStr ''click''
     \<and> PyStr ''zoom'' \<noteq> PyStr ''hover''
     \<and> handle_button_msg two_handlers two_handlers zoom = (two_handlers, [])"
  using unknown_event_ignored [of zoom "PyStr ''zoom''" two_handlers two_handlers]
  by (simp add: zoom_def)

text \<open>
  C9. For an inbound message with no \<^verbatim>\<open>event\<close> key, the handler reads the empty string as
  the event, which is neither \<^verbatim>\<open>"click"\<close> nor \<^verbatim>\<open>"hover"\<close>: it returns with no callback
  invoked and the widget as it was.
\<close>

theorem missing_event_ignored:
  assumes "content ''event'' = None"
  shows "dict_get content ''event'' (PyStr '''') = PyStr ''''
           \<and> handle_button_msg self u content = (self, [])"
  using assms by (simp add: handle_button_msg_def dict_get_def)

theorem missing_event_ignored_witness:
  "no_event ''event'' = None
     \<and> dict_get no_event ''event'' (PyStr '''') = PyStr ''''
     \<and> handle_button_msg two_handlers two_handlers no_event = (two_handlers, [])"
  using missing_event_ignored [of no_event two_handlers two_handlers]
  by (simp add: no_event_def)

section \<open>Registration\<close>

text \<open>
  C10. \<^verbatim>\<open>on_ctrl_click\<close> changes nothing but the callback list of the ctrl-click
  dispatcher, and \<^verbatim>\<open>on_hover\<close> nothing but that of the hover dispatcher, whatever
  \<^verbatim>\<open>remove\<close> is: every trait value and the other dispatcher's callback list stay as they
  were.
\<close>

theorem registration_frame:
  "trait_values (on_ctrl_click self callback remove) = trait_values self
     \<and> attr_get (on_ctrl_click self callback remove) f = attr_get self f
     \<and> hover_handlers (on_ctrl_click self callback remove) = hover_handlers self
     \<and> trait_values (on_hover self callback remove) = trait_values self
     \<and> attr_get (on_hover self callback remove) f = attr_get self f
     \<and> ctrl_click_handlers (on_hover self callback remove) = ctrl_click_handlers self"
  by (simp add: on_ctrl_click_def on_hover_def attr_get_def)

section \<open>Dispatch\<close>

text \<open>
  C6. A dispatcher on which the callbacks c1..cN were registered in this order invokes,
  in one dispatch, exactly c1..cN in this order, each once for each registration. So does
  the widget: after the registrations on a constructed widget, one message of the
  matching event makes the handler return these invocations, in this order. (The handler
  returns after the invocations: the model has one thread of control.)
\<close>

theorem dispatch_in_registration_order:
  "dispatch (foldl (\<lambda>cbs c. register_callback cbs c False) [] cs) source payload =
     map (\<lambda>c. (c, source, payload)) cs
   \<and> (Map_init kwargs = Inr w0 \<longrightarrow> click ''event'' = Some (PyStr ''click'') \<longrightarrow>
        handle_button_msg (on_ctrl_click_calls w0 (map (\<lambda>c. (c, False)) cs)) u click =
          (on_ctrl_click_calls w0 (map (\<lambda>c. (c, False)) cs),
           map (\<lambda>c. (c, on_ctrl_click_calls w0 (map (\<lambda>c. (c, False)) cs), click)) cs))
   \<and> (Map_init kwargs = Inr w0 \<longrightarrow> hover ''event'' = Some (PyStr ''hover'') \<longrightarrow>
        handle_button_msg (on_hover_calls w0 (map (\<lambda>c. (c, False)) cs)) u hover =
          (on_hover_calls w0 (map (\<lambda>c. (c, False)) cs),
           map (\<lambda>c. (c, on_hover_calls w0 (map (\<lambda>c. (c, False)) cs), hover)) cs))"
  by (simp add: foldl_register dispatch_map handle_button_msg_def dict_get_def
        ctrl_click_calls_simulate hover_calls_simulate simulate_registrations Map_init_handlers)

theorem dispatch_in_registration_order_witness:
  "Map_init [] = Inr new_widget \<and> click_FRA ''event'' = Some (PyStr ''click'')
   \<and> hover_DEU ''event'' = Some (PyStr ''hover'')
   \<and> dispatch (foldl (\<lambda>cbs c. register_callback cbs c False) [] [4, 5, 6 :: nat])
        new_widget click_FRA =
       [(4, new_widget, click_FRA), (5, new_widget, click_FRA), (6, new_widget, click_FRA)]
   \<and> map fst (snd (handle_button_msg
         (on_ctrl_click_calls new_widget [(4, False), (5, False), (6, False)])
         new_widget click_FRA)) = [4, 5, 6]
   \<and> map fst (snd (handle_button_msg
         (on_hover_calls new_widget [(4, False), (5, False), (6, False)])
         new_widget hover_DEU)) = [4, 5, 6]"
proof -
  have i: "Map_init [] = Inr new_widget"
    by (simp add: Map_init_def new_widget_def)
  have c: "click_FRA ''event'' = Some (PyStr ''click'')"
    by (simp add: click_FRA_def)
  have h: "hover_DEU ''event'' = Some (PyStr ''hover'')"
    by (simp add: hover_DEU_def)
  show ?thesis
    using i c h
      dispatch_in_registration_order
        [of "[4, 5, 6]" new_widget click_FRA "[]" new_widget click_FRA new_widget hover_DEU]
    by (simp del: on_hover_calls.simps on_ctrl_click_calls.simps)
qed

section \<open>Assignment to a trait\<close>

text \<open>
  C7. An assignment to a trait fails with \<open>InvalidFieldKind\<close> exactly when the type of the
  value disagrees with the declared kind, unless the value is null and the field is one of
  \<^verbatim>\<open>hovered_styles\<close>, \<^verbatim>\<open>stroke_color\<close>, \<^verbatim>\<open>default_color\<close>, \<^verbatim>\<open>color_scale\<close>,
  \<^verbatim>\<open>selected_styles\<close>, \<^verbatim>\<open>axis\<close>, \<^verbatim>\<open>tooltip_widget\<close>. Nothing else is checked: an assignment
  that does not fail so stores the value. The error is the result of the assignment
  itself, and the constructor passes it on to its caller.
\<close>

theorem set_fails_exactly_on_kind_mismatch:
  "(attr_set self f v = Inl InvalidFieldKind) =
     (\<not> kind_ok (trait (Map_decl f)) v
      \<and> \<not> (v = PyNone
           \<and> f \<in> {hovered_styles, stroke_color, default_color, color_scale, selected_styles,
                   axis, tooltip_widget}))
   \<and> (attr_set self f v \<noteq> Inl InvalidFieldKind) =
       (attr_set self f v = Inr (self\<lparr>trait_values := (trait_values self)(f \<mapsto> v)\<rparr>))
   \<and> (set_trait default_value f v = Inl e \<longrightarrow> Map_init ((f, v) # kwargs) = Inl e)"
  by (auto simp add: attr_set_def set_trait_def Map_init_def allow_none_fields kind_ok_PyNone)

theorem set_fails_exactly_on_kind_mismatch_witness:
  "attr_set new_widget min_width (PyStr ''wide'') = Inl InvalidFieldKind
   \<and> attr_set new_widget min_width PyNone = Inl InvalidFieldKind
   \<and> set_trait default_value min_width (PyStr ''wide'') = Inl InvalidFieldKind
   \<and> Map_init [(min_width, PyStr ''wide'')] = Inl InvalidFieldKind
   \<and> attr_set new_widget min_width (PyFloat (- 5)) =
       Inr (new_widget\<lparr>trait_values := (trait_values new_widget)(min_width \<mapsto> PyFloat (- 5))\<rparr>)
   \<and> attr_set new_widget axis PyNone =
       Inr (new_widget\<lparr>trait_values := (trait_values new_widget)(axis \<mapsto> PyNone)\<rparr>)"
proof -
  have s: "set_trait default_value min_width (PyStr ''wide'') = Inl InvalidFieldKind"
    by (simp add: set_trait_def allow_none_def decl_def)
  show ?thesis
    using s
      set_fails_exactly_on_kind_mismatch
        [of new_widget min_width "PyStr ''wide''" InvalidFieldKind "[]"]
      set_fails_exactly_on_kind_mismatch [of new_widget min_width PyNone InvalidFieldKind "[]"]
      set_fails_exactly_on_kind_mismatch
        [of new_widget min_width "PyFloat (- 5)" InvalidFieldKind "[]"]
      set_fails_exactly_on_kind_mismatch [of new_widget axis PyNone InvalidFieldKind "[]"]
    by (auto simp add: decl_def)
qed

end
